theory Spec2Isabelle
  imports Complex_Main
begin

section \<open>Omen data models: markets, bets and their derived values\<close>

text \<open>
  A shallow embedding of \<^verbatim>\<open>prediction_market_agent_tooling/markets/omen/data_models.py\<close>.

  Conventions of the embedding.
  \<^item> A pydantic model is a record with the fields of the class; a field name shared by
    several classes is written qualified (\<open>OmenMarket.outcomes\<close>, \<open>OmenBetFPMM.outcomes\<close>).
    The fields \<^verbatim>\<open>id\<close> and \<^verbatim>\<open>type\<close> are written \<open>id'\<close> and \<open>type'\<close>.
  \<^item> A property or method \<^verbatim>\<open>f\<close> of class \<^verbatim>\<open>K\<close> is the function \<open>K_f\<close>
    (\<open>p_yes\<close>, \<open>get_profit\<close>, \<open>get_resolution_enum\<close> and \<open>to_generic_resolved_bet\<close>, which
    exist once, keep their bare names).
  \<^item> Every \<^verbatim>\<open>raise\<close> of the source, and every exception of a builtin the source calls
    (\<^verbatim>\<open>list.index\<close>, list subscription, \<^verbatim>\<open>int(s, 16)\<close>), is a value \<open>Inl e\<close> of the
    result type \<open>error + 'a\<close>.
  \<^item> Python's \<^verbatim>\<open>int\<close> is \<open>int\<close>.
  \<^item> The xDai amounts that \<^verbatim>\<open>get_profit\<close> computes with are of a type \<open>'x\<close> of which only
    the operations the source applies are used, subtraction and negation; none of their
    laws is assumed, so that a finite-precision arithmetic, which rounds, is an instance.
    A theorem that needs a law of the arithmetic states it as a hypothesis.
  \<^item> \<^verbatim>\<open>Probability\<close> and the data fields of type \<^verbatim>\<open>xDai\<close> and \<^verbatim>\<open>USD\<close> are \<open>real\<close>;
    \<^verbatim>\<open>Decimal(x)\<close> is exact and is the identity.
  \<^item> \<^verbatim>\<open>datetime.fromtimestamp\<close> raises on a timestamp outside the range of the
    platform: it is the parameter \<open>fromtimestamp\<close>, which returns \<open>None\<close> where the
    library raises, and the type \<open>'d\<close> of datetimes is left open.
  \<^item> Strings are ASCII text.
  \<^item> The address helpers (\<^verbatim>\<open>Web3.to_checksum_address\<close>) and
    \<^verbatim>\<open>outcomeTokenProbabilities\<close> are not part of the embedding.
\<close>

subsection \<open>Errors\<close>

text \<open>
  One constructor per raise site. The source raises \<^verbatim>\<open>ValueError\<close> with a distinct message
  at each site; the names follow the error taxonomy of the specification where it has one:
  \<^item> \<open>InvalidOutcomeLabel s\<close>: \<^verbatim>\<open>get_boolean_outcome\<close>, label \<open>s\<close> is neither constant;
  \<^item> \<open>NoOutcomeTokenAmounts\<close>, \<open>NotTwoOutcomeTokenAmounts n\<close>: the two guards of
    \<^verbatim>\<open>p_yes\<close> (together the specification's unsupported market shape);
  \<^item> \<open>OutcomeNotFound\<close>: \<^verbatim>\<open>list.index\<close> finds no element;
  \<^item> \<open>NotBinary n\<close>, \<open>NotResolved\<close>: the two guards of \<^verbatim>\<open>boolean_outcome\<close>;
  \<^item> \<open>MarketNotResolved\<close>: the guard of \<^verbatim>\<open>to_generic_resolved_bet\<close>;
  \<^item> \<open>IndexError\<close>: a list subscript out of range;
  \<^item> \<open>InvalidLiteral s\<close>: \<^verbatim>\<open>int(s, 16)\<close> rejects \<open>s\<close>;
  \<^item> \<open>NoneValue\<close>: \<^verbatim>\<open>check_not_none\<close> received \<^verbatim>\<open>None\<close>;
  \<^item> \<open>TimestampOutOfRange\<close>: \<^verbatim>\<open>datetime.fromtimestamp\<close> rejects the timestamp.
\<close>

datatype error =
    InvalidOutcomeLabel string
  | NoOutcomeTokenAmounts
  | NotTwoOutcomeTokenAmounts nat
  | OutcomeNotFound
  | NotBinary nat
  | NotResolved
  | MarketNotResolved
  | IndexError
  | InvalidLiteral string
  | NoneValue
  | TimestampOutOfRange

definition UnsupportedMarketShape :: "error \<Rightarrow> bool" where
  "UnsupportedMarketShape e =
     (case e of NoOutcomeTokenAmounts \<Rightarrow> True
              | NotTwoOutcomeTokenAmounts n \<Rightarrow> True
              | _ \<Rightarrow> False)"

subsection \<open>Python builtins used by the module\<close>

text \<open>\<^verbatim>\<open>xs[i]\<close>: a negative index counts from the end; out of range raises.\<close>

definition list_getitem :: "'a list \<Rightarrow> int \<Rightarrow> error + 'a" where
  "list_getitem xs i =
     (if 0 \<le> i \<and> i < int (length xs) then Inr (xs ! nat i)
      else if i < 0 \<and> - int (length xs) \<le> i then Inr (xs ! nat (i + int (length xs)))
      else Inl IndexError)"

text \<open>\<^verbatim>\<open>xs.index(y)\<close>: the position of the first element equal to \<open>y\<close>.\<close>

fun list_index :: "'a list \<Rightarrow> 'a \<Rightarrow> error + nat" where
  "list_index [] y = Inl OutcomeNotFound"
| "list_index (x # xs) y =
     (if x = y then Inr 0
      else (case list_index xs y of Inl e \<Rightarrow> Inl e | Inr k \<Rightarrow> Inr (Suc k)))"

text \<open>
  \<^verbatim>\<open>int(s, 16)\<close> on ASCII text, after CPython's \<^verbatim>\<open>PyLong_FromString\<close>: surrounding
  whitespace is skipped, then an optional sign, then an optional \<^verbatim>\<open>0x\<close> or \<^verbatim>\<open>0X\<close>
  (after which one underscore may follow), then hexadecimal digits in which single
  underscores may separate digits. Anything else raises \<^verbatim>\<open>ValueError\<close>.
\<close>

definition is_space :: "char \<Rightarrow> bool" where
  "is_space c = (let k = (of_char c :: int) in (9 \<le> k \<and> k \<le> 13) \<or> k = 32)"

definition hex_digit :: "char \<Rightarrow> int option" where
  "hex_digit c =
     (let k = (of_char c :: int) in
      if 48 \<le> k \<and> k \<le> 57 then Some (k - 48)
      else if 97 \<le> k \<and> k \<le> 102 then Some (k - 87)
      else if 65 \<le> k \<and> k \<le> 70 then Some (k - 55)
      else None)"

definition skip_sign :: "string \<Rightarrow> bool \<times> string" where
  "skip_sign s =
     (case s of
        [] \<Rightarrow> (False, s)
      | c # cs \<Rightarrow> if c = CHR ''+'' then (False, cs)
                  else if c = CHR ''-'' then (True, cs)
                  else (False, s))"

definition skip_prefix :: "string \<Rightarrow> string" where
  "skip_prefix s =
     (case s of
        a # b # cs \<Rightarrow>
          if a = CHR ''0'' \<and> (b = CHR ''x'' \<or> b = CHR ''X'')
          then (case cs of [] \<Rightarrow> cs | u # ds \<Rightarrow> if u = CHR ''_'' then ds else cs)
          else s
      | _ \<Rightarrow> s)"

text \<open>
  The digit loop: \<open>prev\<close> says that the previous character was an underscore, \<open>acc\<close> is
  the value read so far. It stops at the first character that is neither a digit nor an
  underscore and returns the rest; two underscores in a row, or one at the end, fail.
\<close>

fun scan_digits :: "bool \<Rightarrow> int \<Rightarrow> string \<Rightarrow> (int \<times> string) option" where
  "scan_digits prev acc [] = (if prev then None else Some (acc, []))"
| "scan_digits prev acc (c # cs) =
     (if c = CHR ''_'' then (if prev then None else scan_digits True acc cs)
      else (case hex_digit c of
              Some d \<Rightarrow> scan_digits False (16 * acc + d) cs
            | None \<Rightarrow> if prev then None else Some (acc, c # cs)))"

definition int16 :: "string \<Rightarrow> error + int" where
  "int16 s =
     (let (neg, body) = skip_sign (dropWhile is_space s);
          digits = skip_prefix body
      in case digits of
           [] \<Rightarrow> Inl (InvalidLiteral s)
         | c # cs \<Rightarrow>
             if hex_digit c = None then Inl (InvalidLiteral s)
             else (case scan_digits False 0 digits of
                     None \<Rightarrow> Inl (InvalidLiteral s)
                   | Some (v, rest) \<Rightarrow>
                       if dropWhile is_space rest = []
                       then Inr (if neg then - v else v)
                       else Inl (InvalidLiteral s)))"

subsection \<open>Imported declarations\<close>

text \<open>
  Modelled from the spec: \<^verbatim>\<open>check_not_none\<close> of \<^verbatim>\<open>tools/utils.py\<close>, which is not among
  the sources: it hands a present value back and raises on \<^verbatim>\<open>None\<close> (every accessor that
  depends on an optional field fails rather than defaulting silently).
\<close>

definition check_not_none :: "'a option \<Rightarrow> error + 'a" where
  "check_not_none v = (case v of None \<Rightarrow> Inl NoneValue | Some x \<Rightarrow> Inr x)"

text \<open>
  Modelled from the spec: the declarations imported from \<^verbatim>\<open>markets/data_models.py\<close>, which
  is not among the sources. \<open>Currency\<close> is the currency tag, of which the module names the
  member \<open>xDai\<close>; \<open>Resolution\<close> is the resolution enum, of which the module names \<open>YES\<close> and
  \<open>NO\<close>; \<open>BetAmount\<close> and \<open>ProfitAmount\<close> are an amount with a currency tag; \<open>ResolvedBet\<close>
  is the normalized output with the fields the module passes to its constructor. The
  amount of a profit is of the type \<open>'x\<close> of xDai amounts, the two times of the type \<open>'d\<close>
  of datetimes.
\<close>

datatype Currency = xDai | Mana

datatype Resolution = YES | NO | CANCEL | MKT

record BetAmount =
  amount :: real
  currency :: Currency

record 'x ProfitAmount =
  amount :: 'x
  currency :: Currency

record ('x, 'd) ResolvedBet =
  amount :: BetAmount
  outcome :: bool
  created_time :: 'd
  market_question :: string
  market_outcome :: bool
  resolved_time :: 'd
  profit :: "'x ProfitAmount"

subsection \<open>The outcome decoder\<close>

definition OMEN_TRUE_OUTCOME :: string where
  "OMEN_TRUE_OUTCOME = ''Yes''"

definition OMEN_FALSE_OUTCOME :: string where
  "OMEN_FALSE_OUTCOME = ''No''"

definition get_boolean_outcome :: "string \<Rightarrow> error + bool" where
  "get_boolean_outcome outcome_str =
     (if outcome_str = OMEN_TRUE_OUTCOME then Inr True
      else if outcome_str = OMEN_FALSE_OUTCOME then Inr False
      else Inl (InvalidOutcomeLabel outcome_str))"

subsection \<open>OmenMarket\<close>

record OmenMarket =
  id' :: string
  title :: string
  collateralVolume :: int
  usdVolume :: real
  collateralToken :: string
  outcomes :: "string list"
  outcomeTokenAmounts :: "int list option"
  outcomeTokenMarginalPrices :: "real list option"
  fee :: "int option"
  resolutionTimestamp :: "int option"
  answerFinalizedTimestamp :: "int option"
  currentAnswer :: "string option"
  creationTimestamp :: "int option"

definition BET_AMOUNT_CURRENCY :: Currency where
  "BET_AMOUNT_CURRENCY = xDai"

definition OmenMarket_is_open :: "OmenMarket \<Rightarrow> bool" where
  "OmenMarket_is_open m = (OmenMarket.currentAnswer m = None)"

definition OmenMarket_is_resolved :: "OmenMarket \<Rightarrow> bool" where
  "OmenMarket_is_resolved m =
     (OmenMarket.answerFinalizedTimestamp m \<noteq> None \<and> OmenMarket.currentAnswer m \<noteq> None)"

text \<open>
  \<^verbatim>\<open>outcomeTokenAmounts\<close> is declared a list, and \<^verbatim>\<open>p_yes\<close> still tests it for
  \<^verbatim>\<open>None\<close>: the field is an option here, so that the test is a branch of the model.
\<close>

definition p_yes :: "OmenMarket \<Rightarrow> error + real" where
  "p_yes m =
     (case OmenMarket.outcomeTokenAmounts m of
        None \<Rightarrow> Inl NoOutcomeTokenAmounts
      | Some amounts \<Rightarrow>
          if length amounts \<noteq> 2 then Inl (NotTwoOutcomeTokenAmounts (length amounts))
          else (case list_index (OmenMarket.outcomes m) OMEN_TRUE_OUTCOME of
                  Inl e \<Rightarrow> Inl e
                | Inr true_index \<Rightarrow>
                    if sum_list amounts = 0 then Inr (1 / 2)
                    else (case list_getitem amounts (int true_index) of
                            Inl e \<Rightarrow> Inl e
                          | Inr a \<Rightarrow>
                              Inr (1 - real_of_int a / real_of_int (sum_list amounts)))))"

definition p_no :: "OmenMarket \<Rightarrow> error + real" where
  "p_no m = (case p_yes m of Inl e \<Rightarrow> Inl e | Inr p \<Rightarrow> Inr (1 - p))"

definition OmenMarket_is_binary :: "OmenMarket \<Rightarrow> bool" where
  "OmenMarket_is_binary m = (length (OmenMarket.outcomes m) = 2)"

definition OmenMarket_boolean_outcome :: "OmenMarket \<Rightarrow> error + bool" where
  "OmenMarket_boolean_outcome m =
     (if \<not> OmenMarket_is_binary m then Inl (NotBinary (length (OmenMarket.outcomes m)))
      else if \<not> OmenMarket_is_resolved m then Inl NotResolved
      else (case check_not_none (OmenMarket.currentAnswer m) of
              Inl e \<Rightarrow> Inl e
            | Inr answer \<Rightarrow>
                (case int16 answer of
                   Inl e \<Rightarrow> Inl e
                 | Inr i \<Rightarrow>
                     (case list_getitem (OmenMarket.outcomes m) i of
                        Inl e \<Rightarrow> Inl e
                      | Inr label \<Rightarrow> get_boolean_outcome label))))"

definition get_resolution_enum :: "OmenMarket \<Rightarrow> error + Resolution option" where
  "get_resolution_enum m =
     (if \<not> OmenMarket_is_resolved m then Inr None
      else (case OmenMarket_boolean_outcome m of
              Inl e \<Rightarrow> Inl e
            | Inr b \<Rightarrow> if b then Inr (Some YES) else Inr (Some NO)))"

subsection \<open>OmenBetFPMM: the market embedded in a bet\<close>

record OmenBetCreator =
  id' :: string

record OmenBetFPMM =
  id' :: string
  outcomes :: "string list"
  title :: string
  answerFinalizedTimestamp :: "int option"
  resolutionTimestamp :: "int option"
  currentAnswer :: "string option"
  isPendingArbitration :: bool
  arbitrationOccurred :: bool
  openingTimestamp :: int

definition OmenBetFPMM_is_resolved :: "OmenBetFPMM \<Rightarrow> bool" where
  "OmenBetFPMM_is_resolved f =
     (OmenBetFPMM.answerFinalizedTimestamp f \<noteq> None \<and> OmenBetFPMM.currentAnswer f \<noteq> None)"

definition OmenBetFPMM_is_binary :: "OmenBetFPMM \<Rightarrow> bool" where
  "OmenBetFPMM_is_binary f = (length (OmenBetFPMM.outcomes f) = 2)"

definition OmenBetFPMM_boolean_outcome :: "OmenBetFPMM \<Rightarrow> error + bool" where
  "OmenBetFPMM_boolean_outcome f =
     (if \<not> OmenBetFPMM_is_binary f then Inl (NotBinary (length (OmenBetFPMM.outcomes f)))
      else if \<not> OmenBetFPMM_is_resolved f then Inl NotResolved
      else (case check_not_none (OmenBetFPMM.currentAnswer f) of
              Inl e \<Rightarrow> Inl e
            | Inr answer \<Rightarrow>
                (case int16 answer of
                   Inl e \<Rightarrow> Inl e
                 | Inr i \<Rightarrow>
                     (case list_getitem (OmenBetFPMM.outcomes f) i of
                        Inl e \<Rightarrow> Inl e
                      | Inr label \<Rightarrow> get_boolean_outcome label))))"

subsection \<open>OmenBet\<close>

record OmenBet =
  id' :: string
  title :: string
  collateralToken :: string
  outcomeTokenMarginalPrice :: real
  oldOutcomeTokenMarginalPrice :: real
  type' :: string
  creator :: OmenBetCreator
  creationTimestamp :: int
  collateralAmount :: int
  collateralAmountUSD :: real
  feeAmount :: int
  outcomeIndex :: int
  outcomeTokensTraded :: int
  transactionHash :: string
  fpmm :: OmenBetFPMM

definition OmenBet_creation_datetime :: "(int \<Rightarrow> 'd option) \<Rightarrow> OmenBet \<Rightarrow> error + 'd" where
  "OmenBet_creation_datetime fromtimestamp b =
     (case fromtimestamp (OmenBet.creationTimestamp b) of
        None \<Rightarrow> Inl TimestampOutOfRange
      | Some d \<Rightarrow> Inr d)"

definition OmenBet_boolean_outcome :: "OmenBet \<Rightarrow> error + bool" where
  "OmenBet_boolean_outcome b =
     (case list_getitem (OmenBetFPMM.outcomes (fpmm b)) (outcomeIndex b) of
        Inl e \<Rightarrow> Inl e
      | Inr label \<Rightarrow> get_boolean_outcome label)"

text \<open>
  \<^verbatim>\<open>wei_to_xdai\<close> of \<^verbatim>\<open>tools/web3_utils.py\<close> is not among the sources: the unit
  conversion is the parameter \<open>wei_to_xdai\<close>, a pure function from wei to xDai amounts.
  The condition of the conditional expression is evaluated first, both sides of \<^verbatim>\<open>==\<close>
  from left to right. The variable \<^verbatim>\<open>profit\<close> is \<open>gross\<close> before the fee is subtracted and
  \<open>net\<close> after.
\<close>

definition get_profit ::
  "(int \<Rightarrow> 'x::{minus,uminus}) \<Rightarrow> OmenBet \<Rightarrow> error + 'x ProfitAmount" where
  "get_profit wei_to_xdai b =
     (let bet_amount_xdai = wei_to_xdai (collateralAmount b) in
      case OmenBet_boolean_outcome b of
        Inl e \<Rightarrow> Inl e
      | Inr chosen \<Rightarrow>
          (case OmenBetFPMM_boolean_outcome (fpmm b) of
             Inl e \<Rightarrow> Inl e
           | Inr resolved \<Rightarrow>
               (let gross = (if chosen = resolved
                             then wei_to_xdai (outcomeTokensTraded b) - bet_amount_xdai
                             else - bet_amount_xdai);
                    net = gross - wei_to_xdai (feeAmount b)
                in Inr \<lparr>ProfitAmount.amount = net, ProfitAmount.currency = xDai\<rparr>)))"

text \<open>
  The keyword arguments of \<^verbatim>\<open>ResolvedBet(...)\<close> are evaluated in the order written:
  \<^verbatim>\<open>outcome\<close>, \<^verbatim>\<open>created_time\<close>, \<^verbatim>\<open>market_outcome\<close>, \<^verbatim>\<open>resolved_time\<close> and
  \<^verbatim>\<open>profit\<close> are the ones that can raise.
\<close>

definition to_generic_resolved_bet ::
  "(int \<Rightarrow> 'x::{minus,uminus}) \<Rightarrow> (int \<Rightarrow> 'd option) \<Rightarrow> OmenBet
     \<Rightarrow> error + ('x, 'd) ResolvedBet" where
  "to_generic_resolved_bet wei_to_xdai fromtimestamp b =
     (if \<not> OmenBetFPMM_is_resolved (fpmm b) then Inl MarketNotResolved
      else (case OmenBet_boolean_outcome b of
         Inl e \<Rightarrow> Inl e
       | Inr chosen \<Rightarrow>
      (case fromtimestamp (OmenBet.creationTimestamp b) of
         None \<Rightarrow> Inl TimestampOutOfRange
       | Some created \<Rightarrow>
      (case OmenBetFPMM_boolean_outcome (fpmm b) of
         Inl e \<Rightarrow> Inl e
       | Inr resolved \<Rightarrow>
      (case check_not_none (OmenBetFPMM.resolutionTimestamp (fpmm b)) of
         Inl e \<Rightarrow> Inl e
       | Inr ts \<Rightarrow>
      (case fromtimestamp ts of
         None \<Rightarrow> Inl TimestampOutOfRange
       | Some resolved_at \<Rightarrow>
      (case get_profit wei_to_xdai b of
         Inl e \<Rightarrow> Inl e
       | Inr p \<Rightarrow>
           Inr \<lparr>ResolvedBet.amount =
                  \<lparr>BetAmount.amount = collateralAmountUSD b, BetAmount.currency = xDai\<rparr>,
                outcome = chosen,
                created_time = created,
                market_question = OmenBet.title b,
                market_outcome = resolved,
                resolved_time = resolved_at,
                profit = p\<rparr>)))))))"

subsection \<open>Example values\<close>

text \<open>
  The unit conversion used at concrete inputs: one xDai is \<open>10 ^ 18\<close> wei, in exact
  arithmetic. It is one instance of the parameter \<open>wei_to_xdai\<close> of \<open>get_profit\<close>.
\<close>

definition ether :: "int \<Rightarrow> real" where
  "ether wei = real_of_int wei / 10 ^ 18"

text \<open>
  The conversion of timestamps used at concrete inputs: it accepts the seconds of the
  years 1970 to 9999 and represents a datetime by its timestamp. It is one instance of
  the parameter \<open>fromtimestamp\<close>.
\<close>

definition example_fromtimestamp :: "int \<Rightarrow> int option" where
  "example_fromtimestamp t = (if 0 \<le> t \<and> t < 253402300800 then Some t else None)"

text \<open>An open market with outcomes Yes and No and token amounts 30 and 70.\<close>

definition example_market :: OmenMarket where
  "example_market =
     \<lparr>OmenMarket.id' = ''0x1e2f'',
      OmenMarket.title = ''Will it rain tomorrow?'',
      OmenMarket.collateralVolume = 100,
      OmenMarket.usdVolume = 100,
      OmenMarket.collateralToken = ''0xe91d'',
      OmenMarket.outcomes = [''Yes'', ''No''],
      OmenMarket.outcomeTokenAmounts = Some [30, 70],
      OmenMarket.outcomeTokenMarginalPrices = None,
      OmenMarket.fee = None,
      OmenMarket.resolutionTimestamp = None,
      OmenMarket.answerFinalizedTimestamp = None,
      OmenMarket.currentAnswer = None,
      OmenMarket.creationTimestamp = Some 1700000000\<rparr>"

text \<open>
  A resolved binary market as a bet embeds it: the answer is the 32-byte hexadecimal
  word for index 1, the label No.
\<close>

definition example_fpmm :: OmenBetFPMM where
  "example_fpmm =
     \<lparr>OmenBetFPMM.id' = ''0x1e2f'',
      OmenBetFPMM.outcomes = [''Yes'', ''No''],
      OmenBetFPMM.title = ''Will it rain tomorrow?'',
      OmenBetFPMM.answerFinalizedTimestamp = Some 1700100000,
      OmenBetFPMM.resolutionTimestamp = Some 1700200000,
      OmenBetFPMM.currentAnswer =
        Some ''0x0000000000000000000000000000000000000000000000000000000000000001'',
      OmenBetFPMM.isPendingArbitration = False,
      OmenBetFPMM.arbitrationOccurred = False,
      OmenBetFPMM.openingTimestamp = 1700050000\<rparr>"

text \<open>
  A bet on No in that market: collateral 10, 15 outcome tokens, fee 1 (the scenario of
  the specification).
\<close>

definition example_bet :: OmenBet where
  "example_bet =
     \<lparr>OmenBet.id' = ''0x1e2f-0xab-0x1'',
      OmenBet.title = ''Will it rain tomorrow?'',
      OmenBet.collateralToken = ''0xe91d'',
      outcomeTokenMarginalPrice = 2 / 3,
      oldOutcomeTokenMarginalPrice = 1 / 2,
      type' = ''Buy'',
      creator = \<lparr>OmenBetCreator.id' = ''0xab''\<rparr>,
      OmenBet.creationTimestamp = 1700000000,
      collateralAmount = 10,
      collateralAmountUSD = 25 / 2,
      feeAmount = 1,
      outcomeIndex = 1,
      outcomeTokensTraded = 15,
      transactionHash = ''0xcd'',
      fpmm = example_fpmm\<rparr>"

definition example_resolved_bet :: "(real, int) ResolvedBet" where
  "example_resolved_bet =
     \<lparr>ResolvedBet.amount = \<lparr>BetAmount.amount = 25 / 2, BetAmount.currency = xDai\<rparr>,
      outcome = False,
      created_time = 1700000000,
      market_question = ''Will it rain tomorrow?'',
      market_outcome = False,
      resolved_time = 1700200000,
      profit = \<lparr>ProfitAmount.amount = ether 15 - ether 10 - ether 1,
                ProfitAmount.currency = xDai\<rparr>\<rparr>"

section \<open>Facts about the builtins and the building blocks\<close>

subsection \<open>List subscription and search\<close>


lemma list_getitem_error: "list_getitem xs i = Inl e \<Longrightarrow> e = IndexError"
  by (simp add: list_getitem_def split: if_splits)

lemma list_getitem_range:
  "(list_getitem xs i = Inl IndexError) = (\<not> (- int (length xs) \<le> i \<and> i < int (length xs)))"
  by (auto simp: list_getitem_def)


lemma list_index_not_mem: "y \<notin> set xs \<Longrightarrow> list_index xs y = Inl OutcomeNotFound"
  by (induction xs) auto

subsection \<open>Hexadecimal literals\<close>

lemma int16_error: "int16 s = Inl e \<Longrightarrow> e = InvalidLiteral s"
  by (auto simp: int16_def Let_def split: prod.splits list.splits option.splits if_splits)

lemma int16_answer_zero:
  "int16 ''0x0000000000000000000000000000000000000000000000000000000000000000'' = Inr 0"
  by code_simp

lemma int16_answer_one:
  "int16 ''0x0000000000000000000000000000000000000000000000000000000000000001'' = Inr 1"
  by code_simp

text \<open>The answer that marks a market invalid: all 256 bits set.\<close>

lemma int16_invalid_answer:
  "int16 ''0xffffffffffffffffffffffffffffffffffffffffffffffffffffffffffffffff'' =
     Inr 115792089237316195423570985008687907853269984665640564039457584007913129639935"
  by code_simp

subsection \<open>Boolean outcomes\<close>

lemma get_boolean_outcome_error:
  "get_boolean_outcome l = Inl e \<Longrightarrow> e = InvalidOutcomeLabel l"
  by (simp add: get_boolean_outcome_def split: if_splits)

lemma get_boolean_outcome_Inr:
  "(\<exists>v. get_boolean_outcome l = Inr v) = (l = ''Yes'' \<or> l = ''No'')"
  by (auto simp: get_boolean_outcome_def OMEN_TRUE_OUTCOME_def OMEN_FALSE_OUTCOME_def)

lemma get_boolean_outcome_recognized:
  "l = ''Yes'' \<or> l = ''No'' \<Longrightarrow> get_boolean_outcome l = Inr (l = ''Yes'')"
  by (auto simp: get_boolean_outcome_def OMEN_TRUE_OUTCOME_def OMEN_FALSE_OUTCOME_def)

lemma OmenMarket_boolean_outcome_unfold:
  "OmenMarket_is_binary m \<Longrightarrow> OmenMarket_is_resolved m \<Longrightarrow>
   OmenMarket.currentAnswer m = Some s \<Longrightarrow>
   OmenMarket_boolean_outcome m =
     (case int16 s of
        Inl e \<Rightarrow> Inl e
      | Inr i \<Rightarrow> (case list_getitem (OmenMarket.outcomes m) i of
                    Inl e \<Rightarrow> Inl e
                  | Inr l \<Rightarrow> get_boolean_outcome l))"
  by (simp add: OmenMarket_boolean_outcome_def check_not_none_def)

lemma OmenBetFPMM_boolean_outcome_unfold:
  "OmenBetFPMM_is_binary f \<Longrightarrow> OmenBetFPMM_is_resolved f \<Longrightarrow>
   OmenBetFPMM.currentAnswer f = Some s \<Longrightarrow>
   OmenBetFPMM_boolean_outcome f =
     (case int16 s of
        Inl e \<Rightarrow> Inl e
      | Inr i \<Rightarrow> (case list_getitem (OmenBetFPMM.outcomes f) i of
                    Inl e \<Rightarrow> Inl e
                  | Inr l \<Rightarrow> get_boolean_outcome l))"
  by (simp add: OmenBetFPMM_boolean_outcome_def check_not_none_def)

lemma OmenBetFPMM_boolean_outcome_Inr:
  "OmenBetFPMM_boolean_outcome f = Inr v \<Longrightarrow>
   OmenBetFPMM_is_binary f \<and> OmenBetFPMM_is_resolved f \<and>
   (\<exists>s i l. OmenBetFPMM.currentAnswer f = Some s \<and> int16 s = Inr i
      \<and> list_getitem (OmenBetFPMM.outcomes f) i = Inr l \<and> get_boolean_outcome l = Inr v)"
  by (auto simp: OmenBetFPMM_boolean_outcome_def check_not_none_def
           split: if_splits option.splits sum.splits)

lemma OmenBetFPMM_boolean_outcome_not_MarketNotResolved:
  "OmenBetFPMM_boolean_outcome f \<noteq> Inl MarketNotResolved"
  by (auto simp: OmenBetFPMM_boolean_outcome_def check_not_none_def
           split: if_splits option.splits sum.splits
           dest: int16_error list_getitem_error get_boolean_outcome_error)

lemma OmenBet_boolean_outcome_not_MarketNotResolved:
  "OmenBet_boolean_outcome b \<noteq> Inl MarketNotResolved"
  by (auto simp: OmenBet_boolean_outcome_def split: sum.splits
           dest: list_getitem_error get_boolean_outcome_error)

text \<open>
  On a list of two labels the subscript, followed by the decoder, ends in \<open>IndexError\<close>
  exactly when the index is outside \<open>-2 .. 1\<close>.
\<close>

lemma decode_label_IndexError:
  fixes xs :: "string list"
  assumes len: "length xs = 2"
  shows "((case list_getitem xs k of Inl e \<Rightarrow> Inl e | Inr l \<Rightarrow> get_boolean_outcome l)
            = Inl IndexError) = (\<not> (- 2 \<le> k \<and> k < 2))"
proof (cases "list_getitem xs k")
  case (Inl e)
  then have "e = IndexError" by (rule list_getitem_error)
  with Inl list_getitem_range [of xs k] len show ?thesis by simp
next
  case (Inr l)
  then have "list_getitem xs k \<noteq> Inl IndexError" by simp
  with list_getitem_range [of xs k] len have "- 2 \<le> k \<and> k < 2" by simp
  moreover have "get_boolean_outcome l \<noteq> Inl IndexError"
    using get_boolean_outcome_error [of l IndexError] by auto
  ultimately show ?thesis using Inr by simp
qed

text \<open>On a list of recognized labels, a position of the list decodes to a boolean.\<close>

lemma decode_label_recognized:
  fixes xs :: "string list"
  assumes "\<forall>l\<in>set xs. l = ''Yes'' \<or> l = ''No''" and "0 \<le> k" and "k < int (length xs)"
  shows "(case list_getitem xs k of Inl e \<Rightarrow> Inl e | Inr l \<Rightarrow> get_boolean_outcome l)
           = Inr (xs ! nat k = ''Yes'')"
proof -
  from assms(2,3) have n: "nat k < length xs" by simp
  then have "xs ! nat k \<in> set xs" by simp
  with assms(1) have "xs ! nat k = ''Yes'' \<or> xs ! nat k = ''No''" by blast
  then have "get_boolean_outcome (xs ! nat k) = Inr (xs ! nat k = ''Yes'')"
    by (rule get_boolean_outcome_recognized)
  moreover have "list_getitem xs k = Inr (xs ! nat k)"
    using assms(2,3) by (simp add: list_getitem_def)
  ultimately show ?thesis by simp
qed

subsection \<open>Profit and the resolved bet\<close>

lemma get_profit_Inr:
  "OmenBet_boolean_outcome b = Inr x \<Longrightarrow> OmenBetFPMM_boolean_outcome (fpmm b) = Inr y \<Longrightarrow>
   get_profit conv b =
     Inr \<lparr>ProfitAmount.amount =
            (if x = y then conv (outcomeTokensTraded b) - conv (collateralAmount b)
             else - conv (collateralAmount b)) - conv (feeAmount b),
          ProfitAmount.currency = xDai\<rparr>"
  by (simp add: get_profit_def Let_def)

lemma get_profit_not_MarketNotResolved: "get_profit conv b \<noteq> Inl MarketNotResolved"
  using OmenBet_boolean_outcome_not_MarketNotResolved [of b]
    OmenBetFPMM_boolean_outcome_not_MarketNotResolved [of "fpmm b"]
  by (auto simp: get_profit_def Let_def split: sum.splits)

text \<open>The result of \<open>to_generic_resolved_bet\<close> when every step returns.\<close>

lemma to_generic_resolved_bet_success:
  assumes "OmenBetFPMM_is_resolved (fpmm b)"
    and "OmenBet_boolean_outcome b = Inr x"
    and "fts (OmenBet.creationTimestamp b) = Some c"
    and "OmenBetFPMM_boolean_outcome (fpmm b) = Inr y"
    and "OmenBetFPMM.resolutionTimestamp (fpmm b) = Some ts"
    and "fts ts = Some d"
  shows "to_generic_resolved_bet conv fts b =
     Inr \<lparr>ResolvedBet.amount =
            \<lparr>BetAmount.amount = collateralAmountUSD b, BetAmount.currency = xDai\<rparr>,
          outcome = x,
          created_time = c,
          market_question = OmenBet.title b,
          market_outcome = y,
          resolved_time = d,
          profit =
            \<lparr>ProfitAmount.amount =
               (if x = y then conv (outcomeTokensTraded b) - conv (collateralAmount b)
                else - conv (collateralAmount b)) - conv (feeAmount b),
             ProfitAmount.currency = xDai\<rparr>\<rparr>"
  using assms get_profit_Inr [OF assms(2,4), of conv]
  by (simp add: to_generic_resolved_bet_def check_not_none_def)

text \<open>What a returned resolved bet says about the steps.\<close>

lemma to_generic_resolved_bet_Inr:
  assumes "to_generic_resolved_bet conv fts b = Inr r"
  shows "OmenBetFPMM_is_resolved (fpmm b)
     \<and> (\<exists>x. OmenBet_boolean_outcome b = Inr x)
     \<and> (\<exists>c. fts (OmenBet.creationTimestamp b) = Some c)
     \<and> (\<exists>y. OmenBetFPMM_boolean_outcome (fpmm b) = Inr y)
     \<and> (\<exists>ts d. OmenBetFPMM.resolutionTimestamp (fpmm b) = Some ts \<and> fts ts = Some d)
     \<and> ResolvedBet.amount r =
         \<lparr>BetAmount.amount = collateralAmountUSD b, BetAmount.currency = xDai\<rparr>"
  using assms
  by (auto simp: to_generic_resolved_bet_def check_not_none_def
           split: if_splits sum.splits option.splits)

lemma to_generic_resolved_bet_not_MarketNotResolved:
  assumes "OmenBetFPMM_is_resolved (fpmm b)"
  shows "to_generic_resolved_bet conv fts b \<noteq> Inl MarketNotResolved"
  using assms OmenBet_boolean_outcome_not_MarketNotResolved [of b]
    OmenBetFPMM_boolean_outcome_not_MarketNotResolved [of "fpmm b"]
    get_profit_not_MarketNotResolved [of conv b]
  by (auto simp: to_generic_resolved_bet_def check_not_none_def
           split: sum.splits option.splits)

subsection \<open>The example values evaluated\<close>

lemma example_market_p_yes: "p_yes example_market = Inr (7 / 10)"
  by (simp add: example_market_def p_yes_def OMEN_TRUE_OUTCOME_def list_getitem_def)

lemma example_fpmm_outcome: "OmenBetFPMM_boolean_outcome example_fpmm = Inr False"
  using int16_answer_one
  by (simp add: OmenBetFPMM_boolean_outcome_def example_fpmm_def OmenBetFPMM_is_binary_def
        OmenBetFPMM_is_resolved_def check_not_none_def list_getitem_def get_boolean_outcome_def
        OMEN_TRUE_OUTCOME_def OMEN_FALSE_OUTCOME_def)

lemma example_bet_outcome: "OmenBet_boolean_outcome example_bet = Inr False"
  by (simp add: OmenBet_boolean_outcome_def example_bet_def example_fpmm_def list_getitem_def
        get_boolean_outcome_def OMEN_TRUE_OUTCOME_def OMEN_FALSE_OUTCOME_def)

lemma example_bet_fpmm_outcome: "OmenBetFPMM_boolean_outcome (fpmm example_bet) = Inr False"
  using example_fpmm_outcome by (simp add: example_bet_def)

lemma example_bet_fields:
  "collateralAmountUSD example_bet = 25 / 2"
  "OmenBet.title example_bet = ''Will it rain tomorrow?''"
  "OmenBet.creationTimestamp example_bet = 1700000000"
  "collateralAmount example_bet = 10"
  "outcomeTokensTraded example_bet = 15"
  "feeAmount example_bet = 1"
  "outcomeIndex example_bet = 1"
  "OmenBetFPMM.resolutionTimestamp (fpmm example_bet) = Some 1700200000"
  "OmenBetFPMM.outcomes (fpmm example_bet) = [''Yes'', ''No'']"
  "OmenBetFPMM.currentAnswer (fpmm example_bet) =
     Some ''0x0000000000000000000000000000000000000000000000000000000000000001''"
  "OmenBetFPMM_is_resolved (fpmm example_bet)"
  "OmenBetFPMM_is_binary (fpmm example_bet)"
  by (simp_all add: example_bet_def example_fpmm_def OmenBetFPMM_is_resolved_def
        OmenBetFPMM_is_binary_def)

lemma example_fromtimestamp_values:
  "example_fromtimestamp 1700000000 = Some 1700000000"
  "example_fromtimestamp 1700200000 = Some 1700200000"
  "example_fromtimestamp 1000000000000000000 = None"
  by (simp_all add: example_fromtimestamp_def)

lemma example_bet_resolved_bet:
  "to_generic_resolved_bet ether example_fromtimestamp example_bet = Inr example_resolved_bet"
  using to_generic_resolved_bet_success [of example_bet False example_fromtimestamp 1700000000
      False 1700200000 1700200000 ether]
  by (simp add: example_bet_fields example_bet_outcome example_bet_fpmm_outcome
        example_fromtimestamp_values example_resolved_bet_def)

section \<open>The outcome decoder accepts exactly two labels\<close>

text \<open>
  C7. \<open>get_boolean_outcome\<close> returns true on the string \<open>''Yes''\<close> and on no other, false
  on the string \<open>''No''\<close> and on no other, and fails with the invalid-label error on every
  other string. The comparison is on the characters, so it is case-sensitive; the
  function is pure.
\<close>

theorem get_boolean_outcome_spec:
  "get_boolean_outcome s =
     (if s = ''Yes'' then Inr True
      else if s = ''No'' then Inr False
      else Inl (InvalidOutcomeLabel s))"
  by (simp add: get_boolean_outcome_def OMEN_TRUE_OUTCOME_def OMEN_FALSE_OUTCOME_def)

section \<open>The implied probability\<close>



text \<open>
  C5. With the token amounts one per outcome, as the data model has them: on a market
  whose outcomes are not exactly two, \<open>p_yes\<close> fails with an unsupported-market-shape
  error, and \<open>p_yes\<close> returns a probability only on a market with exactly two outcomes.
\<close>

theorem p_yes_shape:
  assumes "\<forall>amounts. OmenMarket.outcomeTokenAmounts m = Some amounts
             \<longrightarrow> length amounts = length (OmenMarket.outcomes m)"
  shows "(length (OmenMarket.outcomes m) \<noteq> 2
            \<longrightarrow> (\<exists>e. p_yes m = Inl e \<and> UnsupportedMarketShape e))
     \<and> ((\<exists>p. p_yes m = Inr p) \<longrightarrow> length (OmenMarket.outcomes m) = 2)"
  using assms
  by (auto simp: p_yes_def UnsupportedMarketShape_def split: option.splits if_splits)

text \<open>
  A market with three outcomes and three token amounts is refused; the example market,
  on which \<open>p_yes\<close> returns, has two outcomes.
\<close>

theorem p_yes_shape_witness:
  "(\<exists>e. p_yes (example_market\<lparr>OmenMarket.outcomes := [''Yes'', ''No'', ''Maybe''],
             OmenMarket.outcomeTokenAmounts := Some [30, 70, 10]\<rparr>) = Inl e
        \<and> UnsupportedMarketShape e)
   \<and> length (OmenMarket.outcomes example_market) = 2"
proof -
  let ?m = "example_market\<lparr>OmenMarket.outcomes := [''Yes'', ''No'', ''Maybe''],
             OmenMarket.outcomeTokenAmounts := Some [30, 70, 10]\<rparr>"
  have i3: "\<forall>amounts. OmenMarket.outcomeTokenAmounts ?m = Some amounts
             \<longrightarrow> length amounts = length (OmenMarket.outcomes ?m)"
    by simp
  have i2: "\<forall>amounts. OmenMarket.outcomeTokenAmounts example_market = Some amounts
             \<longrightarrow> length amounts = length (OmenMarket.outcomes example_market)"
    by (simp add: example_market_def)
  have n: "length (OmenMarket.outcomes ?m) \<noteq> 2" by simp
  have p: "\<exists>p. p_yes example_market = Inr p"
    using example_market_p_yes by blast
  from p_yes_shape [OF i3] n p_yes_shape [OF i2] p show ?thesis by blast
qed

section \<open>The resolution of a market\<close>

text \<open>
  C4, as the code has it. If the market is not resolved, \<open>get_resolution_enum\<close> returns
  the none value. If the market is resolved, \<open>get_resolution_enum\<close> follows
  \<open>boolean_outcome\<close>: it returns \<open>YES\<close> where that returns true and \<open>NO\<close> where that
  returns false, and it fails with the error of \<open>boolean_outcome\<close> where that fails, so
  it never returns the none value. In particular, on a resolved binary market whose
  answer decodes to a position of the outcomes with the label Yes or No it returns
  \<open>YES\<close> or \<open>NO\<close>, and on a resolved market that is not binary it fails.
\<close>

theorem get_resolution_enum_spec:
  "(\<not> OmenMarket_is_resolved m \<longrightarrow> get_resolution_enum m = Inr None)
   \<and> (OmenMarket_is_resolved m \<longrightarrow>
        get_resolution_enum m =
          (case OmenMarket_boolean_outcome m of
             Inl e \<Rightarrow> Inl e
           | Inr v \<Rightarrow> Inr (Some (if v then YES else NO))))
   \<and> (OmenMarket_is_resolved m \<and> OmenMarket_is_binary m
        \<and> OmenMarket.currentAnswer m = Some s \<and> int16 s = Inr i
        \<and> list_getitem (OmenMarket.outcomes m) i = Inr l \<and> (l = ''Yes'' \<or> l = ''No'')
      \<longrightarrow> get_resolution_enum m = Inr (Some (if l = ''Yes'' then YES else NO)))
   \<and> (OmenMarket_is_resolved m \<and> \<not> OmenMarket_is_binary m
      \<longrightarrow> get_resolution_enum m = Inl (NotBinary (length (OmenMarket.outcomes m))))"
proof -
  have a: "\<not> OmenMarket_is_resolved m \<longrightarrow> get_resolution_enum m = Inr None"
    by (simp add: get_resolution_enum_def)
  have b: "OmenMarket_is_resolved m \<longrightarrow>
        get_resolution_enum m =
          (case OmenMarket_boolean_outcome m of
             Inl e \<Rightarrow> Inl e
           | Inr v \<Rightarrow> Inr (Some (if v then YES else NO)))"
    by (simp add: get_resolution_enum_def split: sum.splits)
  have c: "OmenMarket_is_resolved m \<and> OmenMarket_is_binary m
        \<and> OmenMarket.currentAnswer m = Some s \<and> int16 s = Inr i
        \<and> list_getitem (OmenMarket.outcomes m) i = Inr l \<and> (l = ''Yes'' \<or> l = ''No'')
      \<longrightarrow> get_resolution_enum m = Inr (Some (if l = ''Yes'' then YES else NO))"
    by (auto simp: get_resolution_enum_def OmenMarket_boolean_outcome_unfold
          get_boolean_outcome_def OMEN_TRUE_OUTCOME_def OMEN_FALSE_OUTCOME_def)
  have d: "OmenMarket_is_resolved m \<and> \<not> OmenMarket_is_binary m
      \<longrightarrow> get_resolution_enum m = Inl (NotBinary (length (OmenMarket.outcomes m)))"
    by (simp add: get_resolution_enum_def OmenMarket_boolean_outcome_def)
  from a b c d show ?thesis by blast
qed

text \<open>The open example market, and the same market resolved to No and to Yes.\<close>

theorem get_resolution_enum_spec_witness:
  "get_resolution_enum example_market = Inr None
   \<and> get_resolution_enum
        (example_market\<lparr>OmenMarket.answerFinalizedTimestamp := Some 1700100000,
            OmenMarket.currentAnswer :=
              Some ''0x0000000000000000000000000000000000000000000000000000000000000001''\<rparr>)
      = Inr (Some NO)
   \<and> get_resolution_enum
        (example_market\<lparr>OmenMarket.answerFinalizedTimestamp := Some 1700100000,
            OmenMarket.currentAnswer :=
              Some ''0x0000000000000000000000000000000000000000000000000000000000000000''\<rparr>)
      = Inr (Some YES)"
proof -
  let ?n = "example_market\<lparr>OmenMarket.answerFinalizedTimestamp := Some 1700100000,
            OmenMarket.currentAnswer :=
              Some ''0x0000000000000000000000000000000000000000000000000000000000000001''\<rparr>"
  let ?y = "example_market\<lparr>OmenMarket.answerFinalizedTimestamp := Some 1700100000,
            OmenMarket.currentAnswer :=
              Some ''0x0000000000000000000000000000000000000000000000000000000000000000''\<rparr>"
  have u: "\<not> OmenMarket_is_resolved example_market"
    by (simp add: OmenMarket_is_resolved_def example_market_def)
  have n: "OmenMarket_is_resolved ?n \<and> OmenMarket_is_binary ?n
        \<and> OmenMarket.currentAnswer ?n =
            Some ''0x0000000000000000000000000000000000000000000000000000000000000001''
        \<and> int16 ''0x0000000000000000000000000000000000000000000000000000000000000001'' = Inr 1
        \<and> list_getitem (OmenMarket.outcomes ?n) 1 = Inr ''No''
        \<and> (''No'' = ''Yes'' \<or> ''No'' = ''No'')"
    by (simp add: OmenMarket_is_resolved_def OmenMarket_is_binary_def example_market_def
          int16_answer_one list_getitem_def)
  have y: "OmenMarket_is_resolved ?y \<and> OmenMarket_is_binary ?y
        \<and> OmenMarket.currentAnswer ?y =
            Some ''0x0000000000000000000000000000000000000000000000000000000000000000''
        \<and> int16 ''0x0000000000000000000000000000000000000000000000000000000000000000'' = Inr 0
        \<and> list_getitem (OmenMarket.outcomes ?y) 0 = Inr ''Yes''
        \<and> (''Yes'' = ''Yes'' \<or> ''Yes'' = ''No'')"
    by (simp add: OmenMarket_is_resolved_def OmenMarket_is_binary_def example_market_def
          int16_answer_zero list_getitem_def)
  from u get_resolution_enum_spec [of example_market]
  have r0: "get_resolution_enum example_market = Inr None"
    by blast
  from n get_resolution_enum_spec [of ?n
      "''0x0000000000000000000000000000000000000000000000000000000000000001''" 1 "''No''"]
  have "get_resolution_enum ?n = Inr (Some (if ''No'' = ''Yes'' then YES else NO))"
    by blast
  then have r1: "get_resolution_enum ?n = Inr (Some NO)" by simp
  from y get_resolution_enum_spec [of ?y
      "''0x0000000000000000000000000000000000000000000000000000000000000000''" 0 "''Yes''"]
  have "get_resolution_enum ?y = Inr (Some (if ''Yes'' = ''Yes'' then YES else NO))"
    by blast
  then have r2: "get_resolution_enum ?y = Inr (Some YES)" by simp
  from r0 r1 r2 show ?thesis by blast
qed

text \<open>
  Resolved alone is not enough: a resolved market with three outcomes is stopped by the
  guard of \<open>boolean_outcome\<close>, and \<open>get_resolution_enum\<close> fails.
\<close>

theorem get_resolution_enum_spec_counterexample:
  "OmenMarket_is_resolved
     (example_market\<lparr>OmenMarket.outcomes := [''Yes'', ''No'', ''Maybe''],
        OmenMarket.answerFinalizedTimestamp := Some 1700100000,
        OmenMarket.currentAnswer :=
          Some ''0x0000000000000000000000000000000000000000000000000000000000000001''\<rparr>)
   \<and> get_resolution_enum
     (example_market\<lparr>OmenMarket.outcomes := [''Yes'', ''No'', ''Maybe''],
        OmenMarket.answerFinalizedTimestamp := Some 1700100000,
        OmenMarket.currentAnswer :=
          Some ''0x0000000000000000000000000000000000000000000000000000000000000001''\<rparr>)
     = Inl (NotBinary 3)"
  by (simp add: get_resolution_enum_def OmenMarket_boolean_outcome_def OmenMarket_is_resolved_def
        OmenMarket_is_binary_def example_market_def)

text \<open>
  C8. For a binary and resolved market, of either class, whose answer decodes to the
  index \<open>i\<close>, an index that a hexadecimal word encodes and so not negative,
  \<open>boolean_outcome\<close> ends in the out-of-range failure unless \<open>i\<close> is 0 or 1, and does
  not end in it when \<open>i\<close> is 0 or 1: binary and resolved alone do not make the subscript
  safe.
\<close>

theorem boolean_outcome_index:
  "(OmenMarket_is_binary m \<and> OmenMarket_is_resolved m
      \<and> OmenMarket.currentAnswer m = Some s \<and> int16 s = Inr i \<and> 0 \<le> i
    \<longrightarrow> ((OmenMarket_boolean_outcome m = Inl IndexError) = (\<not> (i = 0 \<or> i = 1))))
   \<and> (OmenBetFPMM_is_binary f \<and> OmenBetFPMM_is_resolved f
      \<and> OmenBetFPMM.currentAnswer f = Some t \<and> int16 t = Inr j \<and> 0 \<le> j
    \<longrightarrow> ((OmenBetFPMM_boolean_outcome f = Inl IndexError) = (\<not> (j = 0 \<or> j = 1))))"
proof -
  have a: "OmenMarket_is_binary m \<and> OmenMarket_is_resolved m
      \<and> OmenMarket.currentAnswer m = Some s \<and> int16 s = Inr i \<and> 0 \<le> i
    \<longrightarrow> ((OmenMarket_boolean_outcome m = Inl IndexError) = (\<not> (i = 0 \<or> i = 1)))"
    using decode_label_IndexError [of "OmenMarket.outcomes m" i]
    by (auto simp: OmenMarket_boolean_outcome_unfold OmenMarket_is_binary_def)
  have b: "OmenBetFPMM_is_binary f \<and> OmenBetFPMM_is_resolved f
      \<and> OmenBetFPMM.currentAnswer f = Some t \<and> int16 t = Inr j \<and> 0 \<le> j
    \<longrightarrow> ((OmenBetFPMM_boolean_outcome f = Inl IndexError) = (\<not> (j = 0 \<or> j = 1)))"
    using decode_label_IndexError [of "OmenBetFPMM.outcomes f" j]
    by (auto simp: OmenBetFPMM_boolean_outcome_unfold OmenBetFPMM_is_binary_def)
  from a b show ?thesis by blast
qed

text \<open>
  A binary, resolved market whose answer is the all-ones word fails out of range; one
  whose answer is index 1 does not.
\<close>

theorem boolean_outcome_index_witness:
  "OmenBetFPMM_is_binary
     (example_fpmm\<lparr>OmenBetFPMM.currentAnswer :=
        Some ''0xffffffffffffffffffffffffffffffffffffffffffffffffffffffffffffffff''\<rparr>)
   \<and> OmenBetFPMM_is_resolved
     (example_fpmm\<lparr>OmenBetFPMM.currentAnswer :=
        Some ''0xffffffffffffffffffffffffffffffffffffffffffffffffffffffffffffffff''\<rparr>)
   \<and> OmenBetFPMM_boolean_outcome
     (example_fpmm\<lparr>OmenBetFPMM.currentAnswer :=
        Some ''0xffffffffffffffffffffffffffffffffffffffffffffffffffffffffffffffff''\<rparr>)
     = Inl IndexError
   \<and> OmenMarket_boolean_outcome
     (example_market\<lparr>OmenMarket.answerFinalizedTimestamp := Some 1700100000,
        OmenMarket.currentAnswer :=
          Some ''0x0000000000000000000000000000000000000000000000000000000000000001''\<rparr>)
     \<noteq> Inl IndexError"
proof -
  let ?f = "example_fpmm\<lparr>OmenBetFPMM.currentAnswer :=
        Some ''0xffffffffffffffffffffffffffffffffffffffffffffffffffffffffffffffff''\<rparr>"
  let ?m = "example_market\<lparr>OmenMarket.answerFinalizedTimestamp := Some 1700100000,
        OmenMarket.currentAnswer :=
          Some ''0x0000000000000000000000000000000000000000000000000000000000000001''\<rparr>"
  have hf: "OmenBetFPMM_is_binary ?f \<and> OmenBetFPMM_is_resolved ?f
      \<and> OmenBetFPMM.currentAnswer ?f =
          Some ''0xffffffffffffffffffffffffffffffffffffffffffffffffffffffffffffffff''
      \<and> int16 ''0xffffffffffffffffffffffffffffffffffffffffffffffffffffffffffffffff'' =
          Inr 115792089237316195423570985008687907853269984665640564039457584007913129639935
      \<and> (0 :: int)
          \<le> 115792089237316195423570985008687907853269984665640564039457584007913129639935"
    by (simp add: OmenBetFPMM_is_binary_def OmenBetFPMM_is_resolved_def example_fpmm_def
          int16_invalid_answer)
  have hm: "OmenMarket_is_binary ?m \<and> OmenMarket_is_resolved ?m
      \<and> OmenMarket.currentAnswer ?m =
          Some ''0x0000000000000000000000000000000000000000000000000000000000000001''
      \<and> int16 ''0x0000000000000000000000000000000000000000000000000000000000000001'' = Inr 1
      \<and> (0 :: int) \<le> 1"
    by (simp add: OmenMarket_is_binary_def OmenMarket_is_resolved_def example_market_def
          int16_answer_one)
  from hf hm boolean_outcome_index [of ?m
      "''0x0000000000000000000000000000000000000000000000000000000000000001''" 1 ?f
      "''0xffffffffffffffffffffffffffffffffffffffffffffffffffffffffffffffff''"
      115792089237316195423570985008687907853269984665640564039457584007913129639935]
  show ?thesis by simp
qed

section \<open>The profit of a bet\<close>

text \<open>
  C2, with the precondition it needs. Let the embedded market be binary and resolved
  with both labels recognized, let its answer decode to the index 0 or 1, and let the
  outcome index of the bet be 0 or 1. Then the chosen and the resolved boolean outcome
  exist, each saying whether the label at its index is Yes, and \<open>get_profit\<close> returns,
  tagged xDai, the converted tokens traded minus the converted collateral minus the
  converted fee when the two outcomes are equal, and minus the converted collateral
  minus the converted fee when they differ. The conversion is the parameter \<open>conv\<close>;
  no law of the arithmetic is used.
\<close>

theorem get_profit_formula:
  assumes "OmenBetFPMM_is_binary (fpmm b)"
    and "OmenBetFPMM_is_resolved (fpmm b)"
    and "\<forall>l\<in>set (OmenBetFPMM.outcomes (fpmm b)). l = ''Yes'' \<or> l = ''No''"
    and "OmenBetFPMM.currentAnswer (fpmm b) = Some s"
    and "int16 s = Inr i"
    and "i = 0 \<or> i = 1"
    and "outcomeIndex b = 0 \<or> outcomeIndex b = 1"
  shows "OmenBet_boolean_outcome b =
           Inr (OmenBetFPMM.outcomes (fpmm b) ! nat (outcomeIndex b) = ''Yes'')
     \<and> OmenBetFPMM_boolean_outcome (fpmm b) =
           Inr (OmenBetFPMM.outcomes (fpmm b) ! nat i = ''Yes'')
     \<and> get_profit conv b =
           Inr \<lparr>ProfitAmount.amount =
                  (if (OmenBetFPMM.outcomes (fpmm b) ! nat (outcomeIndex b) = ''Yes'')
                        = (OmenBetFPMM.outcomes (fpmm b) ! nat i = ''Yes'')
                   then (conv (outcomeTokensTraded b) - conv (collateralAmount b))
                          - conv (feeAmount b)
                   else - conv (collateralAmount b) - conv (feeAmount b)),
                ProfitAmount.currency = xDai\<rparr>"
proof -
  let ?xs = "OmenBetFPMM.outcomes (fpmm b)"
  from assms(1) have len: "int (length ?xs) = 2"
    by (simp add: OmenBetFPMM_is_binary_def)
  from assms(7) len have oi: "0 \<le> outcomeIndex b" "outcomeIndex b < int (length ?xs)"
    by auto
  from assms(6) len have ai: "0 \<le> i" "i < int (length ?xs)"
    by auto
  have chosen: "OmenBet_boolean_outcome b = Inr (?xs ! nat (outcomeIndex b) = ''Yes'')"
    using decode_label_recognized [OF assms(3) oi]
    by (simp add: OmenBet_boolean_outcome_def)
  have resolved: "OmenBetFPMM_boolean_outcome (fpmm b) = Inr (?xs ! nat i = ''Yes'')"
    using decode_label_recognized [OF assms(3) ai] assms(5)
    by (simp add: OmenBetFPMM_boolean_outcome_unfold [OF assms(1,2,4)])
  from get_profit_Inr [OF chosen resolved, of conv] chosen resolved
  show ?thesis by simp
qed

text \<open>
  The scenario of the specification, collateral 10, tokens 15, fee 1, outcomes equal;
  and the same bet placed on Yes, which loses.
\<close>

theorem get_profit_formula_witness:
  "get_profit ether example_bet =
     Inr \<lparr>ProfitAmount.amount = (ether 15 - ether 10) - ether 1,
          ProfitAmount.currency = xDai\<rparr>
   \<and> get_profit ether (example_bet\<lparr>outcomeIndex := 0\<rparr>) =
     Inr \<lparr>ProfitAmount.amount = - ether 10 - ether 1, ProfitAmount.currency = xDai\<rparr>"
proof -
  let ?l = "example_bet\<lparr>outcomeIndex := 0\<rparr>"
  let ?s = "''0x0000000000000000000000000000000000000000000000000000000000000001''"
  have lab: "\<forall>l\<in>set (OmenBetFPMM.outcomes (fpmm example_bet)). l = ''Yes'' \<or> l = ''No''"
    by (simp add: example_bet_fields)
  have one: "(1 :: int) = 0 \<or> (1 :: int) = 1" by simp
  have w: "get_profit ether example_bet =
     Inr \<lparr>ProfitAmount.amount = (ether 15 - ether 10) - ether 1,
          ProfitAmount.currency = xDai\<rparr>"
    using get_profit_formula [of example_bet ?s 1 ether] lab one int16_answer_one
    by (simp add: example_bet_fields)
  have l: "get_profit ether ?l =
     Inr \<lparr>ProfitAmount.amount = - ether 10 - ether 1, ProfitAmount.currency = xDai\<rparr>"
    using get_profit_formula [of ?l ?s 1 ether] lab one int16_answer_one
    by (simp add: example_bet_fields)
  from w l show ?thesis by blast
qed

text \<open>
  Binary, resolved and recognized labels are not enough. The market of the example bet
  with the all-ones answer, the word that marks a market invalid, is binary and resolved
  and has the labels Yes and No, and \<open>get_profit\<close> fails out of range; so it does with
  the answer of the example and the outcome index 2.
\<close>

theorem get_profit_formula_counterexample:
  "OmenBetFPMM_is_binary
     (fpmm (example_bet\<lparr>fpmm := example_fpmm\<lparr>OmenBetFPMM.currentAnswer :=
        Some ''0xffffffffffffffffffffffffffffffffffffffffffffffffffffffffffffffff''\<rparr>\<rparr>))
   \<and> OmenBetFPMM_is_resolved
     (fpmm (example_bet\<lparr>fpmm := example_fpmm\<lparr>OmenBetFPMM.currentAnswer :=
        Some ''0xffffffffffffffffffffffffffffffffffffffffffffffffffffffffffffffff''\<rparr>\<rparr>))
   \<and> OmenBetFPMM.outcomes
     (fpmm (example_bet\<lparr>fpmm := example_fpmm\<lparr>OmenBetFPMM.currentAnswer :=
        Some ''0xffffffffffffffffffffffffffffffffffffffffffffffffffffffffffffffff''\<rparr>\<rparr>))
     = [''Yes'', ''No'']
   \<and> get_profit ether
     (example_bet\<lparr>fpmm := example_fpmm\<lparr>OmenBetFPMM.currentAnswer :=
        Some ''0xffffffffffffffffffffffffffffffffffffffffffffffffffffffffffffffff''\<rparr>\<rparr>)
     = Inl IndexError
   \<and> OmenBetFPMM_is_binary (fpmm (example_bet\<lparr>outcomeIndex := 2\<rparr>))
   \<and> OmenBetFPMM_is_resolved (fpmm (example_bet\<lparr>outcomeIndex := 2\<rparr>))
   \<and> OmenBetFPMM.outcomes (fpmm (example_bet\<lparr>outcomeIndex := 2\<rparr>)) = [''Yes'', ''No'']
   \<and> get_profit ether (example_bet\<lparr>outcomeIndex := 2\<rparr>) = Inl IndexError"
  using int16_invalid_answer
  by (simp add: get_profit_def OmenBet_boolean_outcome_def OmenBetFPMM_boolean_outcome_def
        OmenBetFPMM_is_binary_def OmenBetFPMM_is_resolved_def check_not_none_def
        example_bet_def example_fpmm_def list_getitem_def get_boolean_outcome_def
        OMEN_TRUE_OUTCOME_def OMEN_FALSE_OUTCOME_def)

text \<open>
  C9. \<open>get_profit\<close> is partial: it fails with an error, and returns no profit, whenever
  the embedded market is not resolved, or is not binary, or its answer decodes to a
  label that is neither Yes nor No.
\<close>

theorem get_profit_partial:
  "\<not> OmenBetFPMM_is_resolved (fpmm b) \<or> \<not> OmenBetFPMM_is_binary (fpmm b)
   \<or> (\<exists>s i l. OmenBetFPMM.currentAnswer (fpmm b) = Some s \<and> int16 s = Inr i
         \<and> list_getitem (OmenBetFPMM.outcomes (fpmm b)) i = Inr l
         \<and> l \<noteq> ''Yes'' \<and> l \<noteq> ''No'')
   \<Longrightarrow> \<exists>e. get_profit conv b = Inl e"
proof (rule ccontr)
  assume h: "\<not> OmenBetFPMM_is_resolved (fpmm b) \<or> \<not> OmenBetFPMM_is_binary (fpmm b)
   \<or> (\<exists>s i l. OmenBetFPMM.currentAnswer (fpmm b) = Some s \<and> int16 s = Inr i
         \<and> list_getitem (OmenBetFPMM.outcomes (fpmm b)) i = Inr l
         \<and> l \<noteq> ''Yes'' \<and> l \<noteq> ''No'')"
  assume "\<not> (\<exists>e. get_profit conv b = Inl e)"
  then obtain p where "get_profit conv b = Inr p"
    by (cases "get_profit conv b") auto
  then obtain v where v: "OmenBetFPMM_boolean_outcome (fpmm b) = Inr v"
    by (auto simp: get_profit_def Let_def split: sum.splits)
  from OmenBetFPMM_boolean_outcome_Inr [OF v] obtain s i l where
    ok: "OmenBetFPMM_is_binary (fpmm b)" "OmenBetFPMM_is_resolved (fpmm b)"
      "OmenBetFPMM.currentAnswer (fpmm b) = Some s" "int16 s = Inr i"
      "list_getitem (OmenBetFPMM.outcomes (fpmm b)) i = Inr l"
      "get_boolean_outcome l = Inr v"
    by blast
  from ok(6) have "l = ''Yes'' \<or> l = ''No''"
    using get_boolean_outcome_Inr [of l] by blast
  with h ok show False by auto
qed

text \<open>One bet for each of the three ways: no answer yet, three outcomes, the label Nope.\<close>

theorem get_profit_partial_witness:
  "(\<exists>e. get_profit ether
           (example_bet\<lparr>fpmm := example_fpmm\<lparr>OmenBetFPMM.currentAnswer := None\<rparr>\<rparr>) = Inl e)
   \<and> (\<exists>e. get_profit ether
           (example_bet\<lparr>fpmm :=
              example_fpmm\<lparr>OmenBetFPMM.outcomes := [''Yes'', ''No'', ''Maybe'']\<rparr>\<rparr>) = Inl e)
   \<and> (\<exists>e. get_profit ether
           (example_bet\<lparr>outcomeIndex := 0,
              fpmm := example_fpmm\<lparr>OmenBetFPMM.outcomes := [''Yes'', ''Nope'']\<rparr>\<rparr>) = Inl e)"
proof -
  let ?a = "example_bet\<lparr>fpmm := example_fpmm\<lparr>OmenBetFPMM.currentAnswer := None\<rparr>\<rparr>"
  let ?b = "example_bet\<lparr>fpmm :=
              example_fpmm\<lparr>OmenBetFPMM.outcomes := [''Yes'', ''No'', ''Maybe'']\<rparr>\<rparr>"
  let ?c = "example_bet\<lparr>outcomeIndex := 0,
              fpmm := example_fpmm\<lparr>OmenBetFPMM.outcomes := [''Yes'', ''Nope'']\<rparr>\<rparr>"
  have a: "\<not> OmenBetFPMM_is_resolved (fpmm ?a)"
    by (simp add: OmenBetFPMM_is_resolved_def)
  have b: "\<not> OmenBetFPMM_is_binary (fpmm ?b)"
    by (simp add: OmenBetFPMM_is_binary_def)
  have c: "\<exists>s i l. OmenBetFPMM.currentAnswer (fpmm ?c) = Some s \<and> int16 s = Inr i
         \<and> list_getitem (OmenBetFPMM.outcomes (fpmm ?c)) i = Inr l
         \<and> l \<noteq> ''Yes'' \<and> l \<noteq> ''No''"
  proof (intro exI conjI)
    show "OmenBetFPMM.currentAnswer (fpmm ?c) =
        Some ''0x0000000000000000000000000000000000000000000000000000000000000001''"
      by (simp add: example_fpmm_def)
    show "int16 ''0x0000000000000000000000000000000000000000000000000000000000000001'' = Inr 1"
      by (rule int16_answer_one)
    show "list_getitem (OmenBetFPMM.outcomes (fpmm ?c)) 1 = Inr ''Nope''"
      by (simp add: list_getitem_def)
    show "''Nope'' \<noteq> ''Yes''" by simp
    show "''Nope'' \<noteq> ''No''" by simp
  qed
  from a b c get_profit_partial [of ?a ether] get_profit_partial [of ?b ether]
    get_profit_partial [of ?c ether]
  show ?thesis by blast
qed

text \<open>
  C6, with the preconditions it needs. Let the chosen outcome of the bet equal the
  resolved outcome of its market. Then \<open>get_profit\<close> is the profit before the fee,
  converted tokens minus converted collateral, minus the converted fee, and so it is
  for the same bet with another fee. Of the order of these amounts the arithmetic
  decides, and its laws are hypotheses:
  \<^item> with a monotone conversion and a subtraction that is not negative when the amount
    subtracted is not larger, the profit before the fee is not negative whenever the
    tokens traded are at least the collateral;
  \<^item> with a monotone conversion and a subtraction that is antitone in the amount
    subtracted, as a rounding subtraction is, a larger fee gives a profit that is not
    larger;
  \<^item> with a strictly monotone conversion and a subtraction that is strictly antitone in
    the amount subtracted, as an exact subtraction is, a strictly larger fee gives a
    strictly smaller profit.
\<close>

theorem get_profit_fee_monotone:
  fixes conv :: "int \<Rightarrow> 'x::{minus,uminus,zero,ord}"
  assumes "OmenBet_boolean_outcome b = Inr v"
    and "OmenBetFPMM_boolean_outcome (fpmm b) = Inr v"
  shows "\<exists>g p p'.
       g = conv (outcomeTokensTraded b) - conv (collateralAmount b)
     \<and> get_profit conv b = Inr p
     \<and> p = \<lparr>ProfitAmount.amount = g - conv (feeAmount b), ProfitAmount.currency = xDai\<rparr>
     \<and> get_profit conv (b\<lparr>feeAmount := fee'\<rparr>) = Inr p'
     \<and> p' = \<lparr>ProfitAmount.amount = g - conv fee', ProfitAmount.currency = xDai\<rparr>
     \<and> ((\<forall>x y. x \<le> y \<longrightarrow> conv x \<le> conv y) \<and> (\<forall>x y :: 'x. y \<le> x \<longrightarrow> 0 \<le> x - y)
          \<longrightarrow> collateralAmount b \<le> outcomeTokensTraded b \<longrightarrow> 0 \<le> g)
     \<and> ((\<forall>x y. x \<le> y \<longrightarrow> conv x \<le> conv y) \<and> (\<forall>a x y :: 'x. x \<le> y \<longrightarrow> a - y \<le> a - x)
          \<longrightarrow> feeAmount b \<le> fee'
          \<longrightarrow> ProfitAmount.amount p' \<le> ProfitAmount.amount p)
     \<and> ((\<forall>x y. x < y \<longrightarrow> conv x < conv y) \<and> (\<forall>a x y :: 'x. x < y \<longrightarrow> a - y < a - x)
          \<longrightarrow> feeAmount b < fee'
          \<longrightarrow> ProfitAmount.amount p' < ProfitAmount.amount p)"
proof -
  let ?g = "conv (outcomeTokensTraded b) - conv (collateralAmount b)"
  let ?p = "\<lparr>ProfitAmount.amount = ?g - conv (feeAmount b), ProfitAmount.currency = xDai\<rparr>"
  let ?p' = "\<lparr>ProfitAmount.amount = ?g - conv fee', ProfitAmount.currency = xDai\<rparr>"
  have o': "OmenBet_boolean_outcome (b\<lparr>feeAmount := fee'\<rparr>) = Inr v"
    using assms(1) by (simp add: OmenBet_boolean_outcome_def)
  have f': "OmenBetFPMM_boolean_outcome (fpmm (b\<lparr>feeAmount := fee'\<rparr>)) = Inr v"
    using assms(2) by simp
  have p: "get_profit conv b = Inr ?p"
    using get_profit_Inr [OF assms, of conv] by simp
  have p': "get_profit conv (b\<lparr>feeAmount := fee'\<rparr>) = Inr ?p'"
    using get_profit_Inr [OF o' f', of conv] by simp
  have sign: "(\<forall>x y. x \<le> y \<longrightarrow> conv x \<le> conv y) \<and> (\<forall>x y :: 'x. y \<le> x \<longrightarrow> 0 \<le> x - y)
          \<longrightarrow> collateralAmount b \<le> outcomeTokensTraded b \<longrightarrow> 0 \<le> ?g"
    by blast
  have weak: "(\<forall>x y. x \<le> y \<longrightarrow> conv x \<le> conv y) \<and> (\<forall>a x y :: 'x. x \<le> y \<longrightarrow> a - y \<le> a - x)
          \<longrightarrow> feeAmount b \<le> fee'
          \<longrightarrow> ProfitAmount.amount ?p' \<le> ProfitAmount.amount ?p"
    by simp
  have strict: "(\<forall>x y. x < y \<longrightarrow> conv x < conv y) \<and> (\<forall>a x y :: 'x. x < y \<longrightarrow> a - y < a - x)
          \<longrightarrow> feeAmount b < fee'
          \<longrightarrow> ProfitAmount.amount ?p' < ProfitAmount.amount ?p"
    by simp
  from p p' sign weak strict show ?thesis by blast
qed

text \<open>
  With the exact conversion: the example bet before the fee, and with the fees 1 and 2.
\<close>

theorem get_profit_fee_monotone_witness:
  "get_profit ether example_bet =
     Inr \<lparr>ProfitAmount.amount = (ether 15 - ether 10) - ether 1,
          ProfitAmount.currency = xDai\<rparr>
   \<and> get_profit ether (example_bet\<lparr>feeAmount := 2\<rparr>) =
     Inr \<lparr>ProfitAmount.amount = (ether 15 - ether 10) - ether 2,
          ProfitAmount.currency = xDai\<rparr>
   \<and> 0 \<le> ether 15 - ether 10
   \<and> (ether 15 - ether 10) - ether 2 \<le> (ether 15 - ether 10) - ether 1
   \<and> (ether 15 - ether 10) - ether 2 < (ether 15 - ether 10) - ether 1"
proof -
  have m: "\<forall>x y. x \<le> y \<longrightarrow> ether x \<le> ether y"
    by (simp add: ether_def divide_right_mono)
  have s: "\<forall>x y. x < y \<longrightarrow> ether x < ether y"
    by (simp add: ether_def divide_strict_right_mono)
  have d: "\<forall>x y :: real. y \<le> x \<longrightarrow> 0 \<le> x - y"
    "\<forall>a x y :: real. x \<le> y \<longrightarrow> a - y \<le> a - x"
    "\<forall>a x y :: real. x < y \<longrightarrow> a - y < a - x"
    by simp_all
  have c: "collateralAmount example_bet \<le> outcomeTokensTraded example_bet"
    "feeAmount example_bet \<le> 2" "feeAmount example_bet < 2"
    by (simp_all add: example_bet_fields)
  from get_profit_fee_monotone [OF example_bet_outcome example_bet_fpmm_outcome, of ether 2]
  obtain g p p' where
    g: "g = ether (outcomeTokensTraded example_bet) - ether (collateralAmount example_bet)"
    and p: "get_profit ether example_bet = Inr p"
      "p = \<lparr>ProfitAmount.amount = g - ether (feeAmount example_bet),
            ProfitAmount.currency = xDai\<rparr>"
    and p': "get_profit ether (example_bet\<lparr>feeAmount := 2\<rparr>) = Inr p'"
      "p' = \<lparr>ProfitAmount.amount = g - ether 2, ProfitAmount.currency = xDai\<rparr>"
    and sign: "(\<forall>x y. x \<le> y \<longrightarrow> ether x \<le> ether y) \<and> (\<forall>x y :: real. y \<le> x \<longrightarrow> 0 \<le> x - y)
          \<longrightarrow> collateralAmount example_bet \<le> outcomeTokensTraded example_bet \<longrightarrow> 0 \<le> g"
    and weak: "(\<forall>x y. x \<le> y \<longrightarrow> ether x \<le> ether y)
            \<and> (\<forall>a x y :: real. x \<le> y \<longrightarrow> a - y \<le> a - x)
          \<longrightarrow> feeAmount example_bet \<le> 2
          \<longrightarrow> ProfitAmount.amount p' \<le> ProfitAmount.amount p"
    and strict: "(\<forall>x y. x < y \<longrightarrow> ether x < ether y)
            \<and> (\<forall>a x y :: real. x < y \<longrightarrow> a - y < a - x)
          \<longrightarrow> feeAmount example_bet < 2
          \<longrightarrow> ProfitAmount.amount p' < ProfitAmount.amount p"
    by blast
  from sign m d(1) c(1) have r1: "0 \<le> g" by blast
  from weak m d(2) c(2) have r2: "ProfitAmount.amount p' \<le> ProfitAmount.amount p" by blast
  from strict s d(3) c(3) have r3: "ProfitAmount.amount p' < ProfitAmount.amount p" by blast
  from g p p' r1 r2 r3 show ?thesis by (simp add: example_bet_fields)
qed

text \<open>
  Equal outcomes do not make the profit before the fee non-negative: with 5 tokens
  traded for a collateral of 10 and no fee, the profit is negative.
\<close>

theorem get_profit_fee_monotone_counterexample:
  "OmenBet_boolean_outcome (example_bet\<lparr>feeAmount := 0, outcomeTokensTraded := 5\<rparr>)
     = Inr False
   \<and> OmenBetFPMM_boolean_outcome
       (fpmm (example_bet\<lparr>feeAmount := 0, outcomeTokensTraded := 5\<rparr>)) = Inr False
   \<and> ether (outcomeTokensTraded (example_bet\<lparr>feeAmount := 0, outcomeTokensTraded := 5\<rparr>))
       - ether (collateralAmount (example_bet\<lparr>feeAmount := 0, outcomeTokensTraded := 5\<rparr>))
       < 0
   \<and> get_profit ether (example_bet\<lparr>feeAmount := 0, outcomeTokensTraded := 5\<rparr>) =
       Inr \<lparr>ProfitAmount.amount = - (5 / 10 ^ 18), ProfitAmount.currency = xDai\<rparr>"
proof -
  let ?b = "example_bet\<lparr>feeAmount := 0, outcomeTokensTraded := 5\<rparr>"
  have o: "OmenBet_boolean_outcome ?b = Inr False"
    using example_bet_outcome by (simp add: OmenBet_boolean_outcome_def)
  have f: "OmenBetFPMM_boolean_outcome (fpmm ?b) = Inr False"
    using example_bet_fpmm_outcome by simp
  have g: "get_profit ether ?b =
       Inr \<lparr>ProfitAmount.amount = - (5 / 10 ^ 18), ProfitAmount.currency = xDai\<rparr>"
    using get_profit_Inr [OF o f, of ether] by (simp add: example_bet_fields ether_def)
  have n: "ether (outcomeTokensTraded ?b) - ether (collateralAmount ?b) < 0"
    by (simp add: example_bet_fields ether_def)
  from o f n g show ?thesis by blast
qed

section \<open>The normalized resolved bet\<close>

text \<open>
  C3, on the fields the guard tests.
  \<^item> \<open>to_generic_resolved_bet\<close> fails with the market-not-resolved error exactly when
    the embedded market is not resolved, that is, when it lacks the answer-finalized
    timestamp or the current answer.
  \<^item> On a resolved market that lacks the resolution timestamp it fails too: with the
    error of \<^verbatim>\<open>check_not_none\<close> when the steps before it returned.
  \<^item> When the market is resolved and has a resolution timestamp, the chosen and the
    resolved boolean outcome exist and \<^verbatim>\<open>datetime.fromtimestamp\<close> accepts both
    timestamps, it returns the projection: the USD collateral, the two outcomes, the two
    times, the title and the profit.
  \<^item> It returns in no other case.
\<close>

theorem to_generic_resolved_bet_spec:
  "((to_generic_resolved_bet conv fts b = Inl MarketNotResolved)
      = (\<not> OmenBetFPMM_is_resolved (fpmm b)))
   \<and> (OmenBetFPMM_is_resolved (fpmm b)
        \<and> OmenBetFPMM.resolutionTimestamp (fpmm b) = None
        \<and> OmenBet_boolean_outcome b = Inr chosen
        \<and> fts (OmenBet.creationTimestamp b) = Some created
        \<and> OmenBetFPMM_boolean_outcome (fpmm b) = Inr resolved
      \<longrightarrow> to_generic_resolved_bet conv fts b = Inl NoneValue)
   \<and> (OmenBetFPMM_is_resolved (fpmm b)
        \<and> OmenBetFPMM.resolutionTimestamp (fpmm b) = Some ts
        \<and> OmenBet_boolean_outcome b = Inr chosen
        \<and> fts (OmenBet.creationTimestamp b) = Some created
        \<and> OmenBetFPMM_boolean_outcome (fpmm b) = Inr resolved
        \<and> fts ts = Some resolved_at
      \<longrightarrow> to_generic_resolved_bet conv fts b =
            Inr \<lparr>ResolvedBet.amount =
                   \<lparr>BetAmount.amount = collateralAmountUSD b, BetAmount.currency = xDai\<rparr>,
                 outcome = chosen,
                 created_time = created,
                 market_question = OmenBet.title b,
                 market_outcome = resolved,
                 resolved_time = resolved_at,
                 profit =
                   \<lparr>ProfitAmount.amount =
                      (if chosen = resolved
                       then conv (outcomeTokensTraded b) - conv (collateralAmount b)
                       else - conv (collateralAmount b)) - conv (feeAmount b),
                    ProfitAmount.currency = xDai\<rparr>\<rparr>)
   \<and> ((\<exists>r. to_generic_resolved_bet conv fts b = Inr r)
      \<longrightarrow> OmenBetFPMM_is_resolved (fpmm b)
          \<and> (\<exists>x. OmenBet_boolean_outcome b = Inr x)
          \<and> (\<exists>c. fts (OmenBet.creationTimestamp b) = Some c)
          \<and> (\<exists>y. OmenBetFPMM_boolean_outcome (fpmm b) = Inr y)
          \<and> (\<exists>t d. OmenBetFPMM.resolutionTimestamp (fpmm b) = Some t \<and> fts t = Some d))"
proof -
  have a: "(to_generic_resolved_bet conv fts b = Inl MarketNotResolved)
      = (\<not> OmenBetFPMM_is_resolved (fpmm b))"
  proof (cases "OmenBetFPMM_is_resolved (fpmm b)")
    case False
    then show ?thesis by (simp add: to_generic_resolved_bet_def)
  next
    case True
    with to_generic_resolved_bet_not_MarketNotResolved [OF True, of conv fts]
    show ?thesis by simp
  qed
  have n: "OmenBetFPMM_is_resolved (fpmm b)
        \<and> OmenBetFPMM.resolutionTimestamp (fpmm b) = None
        \<and> OmenBet_boolean_outcome b = Inr chosen
        \<and> fts (OmenBet.creationTimestamp b) = Some created
        \<and> OmenBetFPMM_boolean_outcome (fpmm b) = Inr resolved
      \<longrightarrow> to_generic_resolved_bet conv fts b = Inl NoneValue"
    by (simp add: to_generic_resolved_bet_def check_not_none_def)
  have s: "OmenBetFPMM_is_resolved (fpmm b)
        \<and> OmenBetFPMM.resolutionTimestamp (fpmm b) = Some ts
        \<and> OmenBet_boolean_outcome b = Inr chosen
        \<and> fts (OmenBet.creationTimestamp b) = Some created
        \<and> OmenBetFPMM_boolean_outcome (fpmm b) = Inr resolved
        \<and> fts ts = Some resolved_at
      \<longrightarrow> to_generic_resolved_bet conv fts b =
            Inr \<lparr>ResolvedBet.amount =
                   \<lparr>BetAmount.amount = collateralAmountUSD b, BetAmount.currency = xDai\<rparr>,
                 outcome = chosen,
                 created_time = created,
                 market_question = OmenBet.title b,
                 market_outcome = resolved,
                 resolved_time = resolved_at,
                 profit =
                   \<lparr>ProfitAmount.amount =
                      (if chosen = resolved
                       then conv (outcomeTokensTraded b) - conv (collateralAmount b)
                       else - conv (collateralAmount b)) - conv (feeAmount b),
                    ProfitAmount.currency = xDai\<rparr>\<rparr>"
    using to_generic_resolved_bet_success [of b chosen fts created resolved ts resolved_at conv]
    by blast
  have r: "(\<exists>r. to_generic_resolved_bet conv fts b = Inr r)
      \<longrightarrow> OmenBetFPMM_is_resolved (fpmm b)
          \<and> (\<exists>x. OmenBet_boolean_outcome b = Inr x)
          \<and> (\<exists>c. fts (OmenBet.creationTimestamp b) = Some c)
          \<and> (\<exists>y. OmenBetFPMM_boolean_outcome (fpmm b) = Inr y)
          \<and> (\<exists>t d. OmenBetFPMM.resolutionTimestamp (fpmm b) = Some t \<and> fts t = Some d)"
    using to_generic_resolved_bet_Inr [of conv fts b] by blast
  from a n s r show ?thesis by blast
qed

text \<open>
  A bet on a market without an answer; the example bet on a market without a resolution
  timestamp; the example bet with its projection.
\<close>

theorem to_generic_resolved_bet_spec_witness:
  "to_generic_resolved_bet ether example_fromtimestamp
       (example_bet\<lparr>fpmm := example_fpmm\<lparr>OmenBetFPMM.currentAnswer := None\<rparr>\<rparr>)
     = Inl MarketNotResolved
   \<and> to_generic_resolved_bet ether example_fromtimestamp
       (example_bet\<lparr>fpmm := example_fpmm\<lparr>OmenBetFPMM.resolutionTimestamp := None\<rparr>\<rparr>)
     = Inl NoneValue
   \<and> to_generic_resolved_bet ether example_fromtimestamp example_bet
     = Inr example_resolved_bet"
proof -
  let ?u = "example_bet\<lparr>fpmm := example_fpmm\<lparr>OmenBetFPMM.currentAnswer := None\<rparr>\<rparr>"
  let ?n = "example_bet\<lparr>fpmm := example_fpmm\<lparr>OmenBetFPMM.resolutionTimestamp := None\<rparr>\<rparr>"
  have u: "\<not> OmenBetFPMM_is_resolved (fpmm ?u)"
    by (simp add: OmenBetFPMM_is_resolved_def)
  have fo: "OmenBetFPMM_boolean_outcome (fpmm ?n) = Inr False"
    using int16_answer_one
    by (simp add: OmenBetFPMM_boolean_outcome_def example_fpmm_def OmenBetFPMM_is_binary_def
          OmenBetFPMM_is_resolved_def check_not_none_def list_getitem_def
          get_boolean_outcome_def OMEN_TRUE_OUTCOME_def OMEN_FALSE_OUTCOME_def)
  have n: "OmenBetFPMM_is_resolved (fpmm ?n)
        \<and> OmenBetFPMM.resolutionTimestamp (fpmm ?n) = None
        \<and> OmenBet_boolean_outcome ?n = Inr False
        \<and> example_fromtimestamp (OmenBet.creationTimestamp ?n) = Some 1700000000
        \<and> OmenBetFPMM_boolean_outcome (fpmm ?n) = Inr False"
    using fo
    by (simp add: OmenBetFPMM_is_resolved_def OmenBet_boolean_outcome_def example_bet_def
          example_fpmm_def list_getitem_def get_boolean_outcome_def OMEN_TRUE_OUTCOME_def
          OMEN_FALSE_OUTCOME_def example_fromtimestamp_def)
  have h: "OmenBetFPMM_is_resolved (fpmm example_bet)
        \<and> OmenBetFPMM.resolutionTimestamp (fpmm example_bet) = Some 1700200000
        \<and> OmenBet_boolean_outcome example_bet = Inr False
        \<and> example_fromtimestamp (OmenBet.creationTimestamp example_bet) = Some 1700000000
        \<and> OmenBetFPMM_boolean_outcome (fpmm example_bet) = Inr False
        \<and> example_fromtimestamp 1700200000 = Some 1700200000"
    by (simp add: example_bet_fields example_bet_outcome example_bet_fpmm_outcome
          example_fromtimestamp_values)
  from u to_generic_resolved_bet_spec [of ether example_fromtimestamp ?u]
  have r0: "to_generic_resolved_bet ether example_fromtimestamp ?u = Inl MarketNotResolved"
    by blast
  from n to_generic_resolved_bet_spec
    [of ether example_fromtimestamp ?n False 1700000000 False]
  have r1: "to_generic_resolved_bet ether example_fromtimestamp ?n = Inl NoneValue"
    by blast
  from h to_generic_resolved_bet_spec
    [of ether example_fromtimestamp example_bet False 1700000000 False 1700200000 1700200000]
  have "to_generic_resolved_bet ether example_fromtimestamp example_bet =
      Inr \<lparr>ResolvedBet.amount =
             \<lparr>BetAmount.amount = collateralAmountUSD example_bet, BetAmount.currency = xDai\<rparr>,
           outcome = False,
           created_time = 1700000000,
           market_question = OmenBet.title example_bet,
           market_outcome = False,
           resolved_time = 1700200000,
           profit =
             \<lparr>ProfitAmount.amount =
                (if False = False
                 then ether (outcomeTokensTraded example_bet)
                        - ether (collateralAmount example_bet)
                 else - ether (collateralAmount example_bet))
                  - ether (feeAmount example_bet),
              ProfitAmount.currency = xDai\<rparr>\<rparr>"
    by blast
  then have r2: "to_generic_resolved_bet ether example_fromtimestamp example_bet
      = Inr example_resolved_bet"
    by (simp add: example_bet_fields example_resolved_bet_def)
  from r0 r1 r2 show ?thesis by blast
qed

text \<open>
  A resolution timestamp decides neither way. A market that has one and lacks the
  answer-finalized timestamp is refused as not resolved; a market that has one and is
  resolved, with three outcomes, is refused by the guard of \<open>boolean_outcome\<close>.
\<close>

theorem to_generic_resolved_bet_spec_counterexample:
  "OmenBetFPMM.resolutionTimestamp
       (fpmm (example_bet\<lparr>fpmm :=
          example_fpmm\<lparr>OmenBetFPMM.answerFinalizedTimestamp := None\<rparr>\<rparr>))
     = Some 1700200000
   \<and> to_generic_resolved_bet ether example_fromtimestamp
       (example_bet\<lparr>fpmm := example_fpmm\<lparr>OmenBetFPMM.answerFinalizedTimestamp := None\<rparr>\<rparr>)
     = Inl MarketNotResolved
   \<and> OmenBetFPMM.resolutionTimestamp
       (fpmm (example_bet\<lparr>fpmm :=
          example_fpmm\<lparr>OmenBetFPMM.outcomes := [''Yes'', ''No'', ''Maybe'']\<rparr>\<rparr>))
     = Some 1700200000
   \<and> to_generic_resolved_bet ether example_fromtimestamp
       (example_bet\<lparr>fpmm :=
          example_fpmm\<lparr>OmenBetFPMM.outcomes := [''Yes'', ''No'', ''Maybe'']\<rparr>\<rparr>)
     = Inl (NotBinary 3)"
  by (simp add: to_generic_resolved_bet_def OmenBetFPMM_is_resolved_def OmenBetFPMM_is_binary_def
        OmenBetFPMM_boolean_outcome_def OmenBet_boolean_outcome_def example_bet_def
        example_fpmm_def list_getitem_def get_boolean_outcome_def OMEN_TRUE_OUTCOME_def
        OMEN_FALSE_OUTCOME_def example_fromtimestamp_def)

text \<open>
  C10. Whenever \<open>to_generic_resolved_bet\<close> returns a resolved bet, the embedded market
  is resolved, the amount of the bet is the USD collateral of the bet, and the currency
  tag of that amount is xDai, the currency constant of the market class.
\<close>

theorem resolved_bet_amount_currency:
  "to_generic_resolved_bet conv fts b = Inr r \<Longrightarrow>
   OmenBetFPMM_is_resolved (fpmm b)
   \<and> BetAmount.amount (ResolvedBet.amount r) = collateralAmountUSD b
   \<and> BetAmount.currency (ResolvedBet.amount r) = xDai
   \<and> BetAmount.currency (ResolvedBet.amount r) = BET_AMOUNT_CURRENCY"
  using to_generic_resolved_bet_Inr [of conv fts b r]
  by (simp add: BET_AMOUNT_CURRENCY_def)

theorem resolved_bet_amount_currency_witness:
  "to_generic_resolved_bet ether example_fromtimestamp example_bet = Inr example_resolved_bet
   \<and> collateralAmountUSD example_bet = 25 / 2
   \<and> BetAmount.amount (ResolvedBet.amount example_resolved_bet) = 25 / 2
   \<and> BetAmount.currency (ResolvedBet.amount example_resolved_bet) = xDai"
proof -
  have c: "collateralAmountUSD example_bet = 25 / 2"
    by (simp add: example_bet_fields)
  from resolved_bet_amount_currency [OF example_bet_resolved_bet] c
  have "BetAmount.amount (ResolvedBet.amount example_resolved_bet) = 25 / 2
      \<and> BetAmount.currency (ResolvedBet.amount example_resolved_bet) = xDai"
    by simp
  with example_bet_resolved_bet c show ?thesis by blast
qed

end
